theory Spec2Isabelle
  imports Main "HOL-Library.Sublist"
begin

section \<open>JavaScript values read by the components\<close>

text \<open>
  The two components of \<^verbatim>\<open>sweagent/frontend/src/components\<close> read four properties of
  \<^verbatim>\<open>item\<close> and the prop \<^verbatim>\<open>isHighlighted\<close>. The data model of the specification
  gives these the scalar values of a feed entry: a property that is missing reads as
  \<^verbatim>\<open>undefined\<close>, and \<^verbatim>\<open>null\<close> is a value of its own. \<open>JNum k\<close> is the Number that
  the integer numeral \<open>k\<close> denotes, that is the double nearest to \<open>k\<close>; Numbers
  with a fractional part and \<^verbatim>\<open>NaN\<close> have no value here.
\<close>

datatype jsval = JUndefined | JNull | JBool bool | JNum int | JStr string

text \<open>The decimal numeral of a natural number, most significant digit first.\<close>

definition digit_char :: "nat \<Rightarrow> char" where
  "digit_char d = ''0123456789'' ! d"

fun nat_to_string :: "nat \<Rightarrow> string" where
  "nat_to_string n =
     (if n < 10 then [digit_char n] else nat_to_string (n div 10) @ [digit_char (n mod 10)])"

declare nat_to_string.simps [simp del]

definition int_to_string :: "int \<Rightarrow> string" where
  "int_to_string k = (if k < 0 then CHR ''-'' # nat_to_string (nat (- k)) else nat_to_string (nat k))"

text \<open>
  \<^verbatim>\<open>Number.isSafeInteger\<close>: the integers that a Number holds exactly and that
  Number::toString spells with all their decimal digits.
\<close>

definition is_safe_integer :: "int \<Rightarrow> bool" where
  "is_safe_integer k = (\<bar>k\<bar> \<le> 2 ^ 53 - 1)"

text \<open>
  Beyond the safe integers a Number keeps 53 significant bits. \<open>nearest_double v\<close> is
  the double nearest to \<open>v\<close>, with ties going to the even significand.
\<close>

fun bit_length :: "nat \<Rightarrow> nat" where
  "bit_length n = (if n = 0 then 0 else Suc (bit_length (n div 2)))"

declare bit_length.simps [simp del]

definition nearest_double :: "nat \<Rightarrow> nat" where
  "nearest_double v =
     (if v < 2 ^ 53 then v
      else let u = 2 ^ (bit_length v - 53); q = v div u; r = v mod u
           in if 2 * r < u then q * u
              else if u < 2 * r then (q + 1) * u
              else if even q then q * u else (q + 1) * u)"

text \<open>
  Number::toString prints the shortest digit string that reads back as the same double,
  and of those the one nearest to it. \<open>shortest_at x i\<close> is the multiple of \<open>10 ^ i\<close>
  that does so for the double \<open>x\<close>, if there is one; \<open>shortest_round_trip x\<close> takes
  the largest such \<open>i\<close>.
\<close>

definition shortest_at :: "nat \<Rightarrow> nat \<Rightarrow> nat option" where
  "shortest_at x i =
     (let P = 10 ^ i; lo = (x div P) * P; hi = lo + P;
          lo_ok = (0 < lo \<and> nearest_double lo = x); hi_ok = (nearest_double hi = x)
      in if lo_ok \<and> hi_ok
         then Some (if x - lo < hi - x then lo
                    else if hi - x < x - lo then hi
                    else if even (x div P) then lo else hi)
         else if lo_ok then Some lo
         else if hi_ok then Some hi
         else None)"

definition shortest_round_trip :: "nat \<Rightarrow> nat" where
  "shortest_round_trip x =
     (case List.map_filter (shortest_at x) (rev [0..<bit_length x]) of
        c # cs \<Rightarrow> c
      | [] \<Rightarrow> x)"

text \<open>
  The exponent notation Number::toString uses from \<open>10 ^ 21\<close> on: the significant
  digits, a point after the first when there are more, and the decimal exponent.
\<close>

definition exponent_form :: "nat \<Rightarrow> string" where
  "exponent_form c =
     (let ds = nat_to_string c;
          sig = rev (dropWhile (\<lambda>d. d = CHR ''0'') (rev ds))
      in (case sig of
            [] \<Rightarrow> []
          | d # rest \<Rightarrow> d # (if rest = [] then [] else CHR ''.'' # rest))
         @ ''e+'' @ nat_to_string (length ds - 1))"

definition big_number_to_string :: "nat \<Rightarrow> string" where
  "big_number_to_string v =
     (let x = nearest_double v
      in if 2 ^ 1024 \<le> x then ''Infinity''
         else let c = shortest_round_trip x
              in if c < 10 ^ 21 then nat_to_string c else exponent_form c)"

text \<open>Number::toString on the Number that \<open>k\<close> denotes.\<close>

definition number_to_string :: "int \<Rightarrow> string" where
  "number_to_string k =
     (if is_safe_integer k then int_to_string k
      else if k < 0 then CHR ''-'' # big_number_to_string (nat (- k))
      else big_number_to_string (nat k))"

text \<open>
  ToString, as a template literal \<^verbatim>\<open>`${v}`\<close> applies it to a substituted value.
\<close>

fun ToString :: "jsval \<Rightarrow> string" where
  "ToString JUndefined = ''undefined''"
| "ToString JNull = ''null''"
| "ToString (JBool b) = (if b then ''true'' else ''false'')"
| "ToString (JNum k) = number_to_string k"
| "ToString (JStr s) = s"

text \<open>
  ToBoolean, as \<^verbatim>\<open>c ? a : b\<close> and \<^verbatim>\<open>a && b\<close> apply it to their first operand.
\<close>

fun truthy :: "jsval \<Rightarrow> bool" where
  "truthy JUndefined = False"
| "truthy JNull = False"
| "truthy (JBool b) = b"
| "truthy (JNum k) = (k \<noteq> 0)"
| "truthy (JStr s) = (s \<noteq> [])"

text \<open>
  A property can also hold a value that is no scalar: a Symbol, an array, or another
  object. \<open>JObject c\<close> is an object that is neither an array nor a React element,
  given by what converting it to a string comes to: \<open>Some s\<close> when the conversion returns \<open>s\<close> (a plain object
  returns \<open>[object Object]\<close>), \<open>None\<close> when it throws.
\<close>

datatype jsany = Scalar jsval | JSymbol | JObject "string option" | JArray "jsany list"

datatype error = TypeError | InvalidChild

text \<open>The results of a list of steps, or the error of the first step that threw.\<close>

fun all_or_first :: "(error + 'a) list \<Rightarrow> error + 'a list" where
  "all_or_first [] = Inr []"
| "all_or_first (Inl e # rs) = Inl e"
| "all_or_first (Inr x # rs) = (case all_or_first rs of Inl e \<Rightarrow> Inl e | Inr xs \<Rightarrow> Inr (x # xs))"

text \<open>Joining strings with a separator, as \<^verbatim>\<open>Array.prototype.join\<close> does.\<close>

fun join :: "string \<Rightarrow> string list \<Rightarrow> string" where
  "join sep [] = []"
| "join sep [x] = x"
| "join sep (x # y # ys) = x @ sep @ join sep (y # ys)"

text \<open>
  ToString on any value. A Symbol throws a TypeError; an array is its elements joined
  by commas, where \<^verbatim>\<open>undefined\<close> and \<^verbatim>\<open>null\<close> elements give the empty string.
\<close>

fun ToString_any :: "jsany \<Rightarrow> error + string" where
  "ToString_any (Scalar v) = Inr (ToString v)"
| "ToString_any JSymbol = Inl TypeError"
| "ToString_any (JObject None) = Inl TypeError"
| "ToString_any (JObject (Some s)) = Inr s"
| "ToString_any (JArray xs) =
     map_sum id (join '','')
       (all_or_first
          (map (\<lambda>x. if x = Scalar JUndefined \<or> x = Scalar JNull then Inr [] else ToString_any x) xs))"

fun truthy_any :: "jsany \<Rightarrow> bool" where
  "truthy_any (Scalar v) = truthy v"
| "truthy_any JSymbol = True"
| "truthy_any (JObject c) = True"
| "truthy_any (JArray xs) = True"

section \<open>Items, props and rendered trees\<close>

text \<open>
  An item is an object; the record names the four properties the components read, and
  the record's extension stands for every other property the object carries. \<open>'v\<close> is
  the type of the values the properties hold.
\<close>

record 'v DisplayItem =
  format :: 'v
  step :: 'v
  title :: 'v
  message :: 'v

text \<open>
  The props object. \<open>item = None\<close> is an \<^verbatim>\<open>item\<close> prop that is \<^verbatim>\<open>null\<close> or
  \<^verbatim>\<open>undefined\<close>. The parent's handler is a state transformer on the parent's state
  \<open>'s\<close>; \<open>'r\<close> is the opaque scrolling-container reference.
\<close>

record ('s, 'r, 'v, 'y) props =
  item :: "('v, 'y) DisplayItem_scheme option"
  handleMouseEnter :: "('v, 'y) DisplayItem_scheme option \<Rightarrow> 'r \<Rightarrow> 's \<Rightarrow> 's"
  isHighlighted :: 'v
  feedRef :: 'r

text \<open>
  What JSX builds: an element with its tag, its \<^verbatim>\<open>className\<close> and
  \<^verbatim>\<open>onMouseEnter\<close> props when given, and its children; or a JavaScript value placed
  as a child with \<^verbatim>\<open>{...}\<close>.
\<close>

datatype ('s, 'v) node =
    Elem string "string option" "('s \<Rightarrow> 's) option" "('s, 'v) node list"
  | Val 'v

fun className :: "('s, 'v) node \<Rightarrow> string option" where
  "className (Elem t c h ns) = c"
| "className (Val v) = None"

fun onMouseEnter :: "('s, 'v) node \<Rightarrow> ('s \<Rightarrow> 's) option" where
  "onMouseEnter (Elem t c h ns) = h"
| "onMouseEnter (Val v) = None"

fun children :: "('s, 'v) node \<Rightarrow> ('s, 'v) node list" where
  "children (Elem t c h ns) = ns"
| "children (Val v) = []"

section \<open>The components on the values of the data model\<close>

text \<open>
  \<^verbatim>\<open>Message.js\<close>, for an item whose properties and highlight state are scalars.
  Reading \<^verbatim>\<open>item.step\<close> of an item that is \<^verbatim>\<open>null\<close> or \<^verbatim>\<open>undefined\<close> throws a
  TypeError; with scalars nothing else in the body can throw.
\<close>

definition Message :: "('s, 'r, jsval, 'y, 'z) props_scheme \<Rightarrow> error + ('s, jsval) node" where
  "Message p =
     (case item p of
        None \<Rightarrow> Inl TypeError
      | Some it \<Rightarrow>
          let stepClass = (if step it \<noteq> JNull then ''step'' @ ToString (step it) else '''');
              highlightClass = (if truthy (isHighlighted p) then ''highlight'' else '''')
          in Inr (Elem ''div''
                (Some (''message '' @ ToString (format it) @ '' '' @ stepClass @ '' '' @ highlightClass))
                (Some (handleMouseEnter p (item p) (feedRef p)))
                [Elem ''h4'' None None [Val (title it)],
                 Elem ''span'' None None [Val (message it)]]))"

text \<open>
  The agent variant. \<^verbatim>\<open>item.title && <span ...>\<close> is the badge when the title is
  truthy and the falsy title itself otherwise.
\<close>

definition AgentMessage :: "('s, 'r, jsval, 'y, 'z) props_scheme \<Rightarrow> error + ('s, jsval) node" where
  "AgentMessage p =
     (case item p of
        None \<Rightarrow> Inl TypeError
      | Some it \<Rightarrow>
          let stepClass = (if step it \<noteq> JNull then ''step'' @ ToString (step it) else '''');
              highlightClass = (if truthy (isHighlighted p) then ''highlight'' else '''')
          in Inr (Elem ''div''
                (Some (''message '' @ ToString (format it) @ '' '' @ stepClass @ '' '' @ highlightClass))
                (Some (handleMouseEnter p (item p) (feedRef p)))
                [if truthy (title it)
                 then Elem ''span'' (Some ''agentMessageTitle badge badge-dark'') None [Val (title it)]
                 else Val (title it),
                 Elem ''span'' None None [Val (message it)]]))"

section \<open>The components on any values\<close>

text \<open>
  The same two bodies for an item whose properties may hold any value. The statements
  run in the order of the source: the template literal of \<^verbatim>\<open>stepClass\<close> converts the
  step, then the one of \<^verbatim>\<open>className\<close> converts the format, and either conversion can
  throw. The title and the message are placed in the tree as they are.
\<close>

definition Message_any :: "('s, 'r, jsany, 'y, 'z) props_scheme \<Rightarrow> error + ('s, jsany) node" where
  "Message_any p =
     (case item p of
        None \<Rightarrow> Inl TypeError
      | Some it \<Rightarrow>
          (case (if step it \<noteq> Scalar JNull
                 then map_sum id (\<lambda>s. ''step'' @ s) (ToString_any (step it))
                 else Inr '''') of
             Inl e \<Rightarrow> Inl e
           | Inr stepClass \<Rightarrow>
               let highlightClass = (if truthy_any (isHighlighted p) then ''highlight'' else '''')
               in (case ToString_any (format it) of
                     Inl e \<Rightarrow> Inl e
                   | Inr fmt \<Rightarrow>
                       Inr (Elem ''div''
                         (Some (''message '' @ fmt @ '' '' @ stepClass @ '' '' @ highlightClass))
                         (Some (handleMouseEnter p (item p) (feedRef p)))
                         [Elem ''h4'' None None [Val (title it)],
                          Elem ''span'' None None [Val (message it)]]))))"

definition AgentMessage_any :: "('s, 'r, jsany, 'y, 'z) props_scheme \<Rightarrow> error + ('s, jsany) node" where
  "AgentMessage_any p =
     (case item p of
        None \<Rightarrow> Inl TypeError
      | Some it \<Rightarrow>
          (case (if step it \<noteq> Scalar JNull
                 then map_sum id (\<lambda>s. ''step'' @ s) (ToString_any (step it))
                 else Inr '''') of
             Inl e \<Rightarrow> Inl e
           | Inr stepClass \<Rightarrow>
               let highlightClass = (if truthy_any (isHighlighted p) then ''highlight'' else '''')
               in (case ToString_any (format it) of
                     Inl e \<Rightarrow> Inl e
                   | Inr fmt \<Rightarrow>
                       Inr (Elem ''div''
                         (Some (''message '' @ fmt @ '' '' @ stepClass @ '' '' @ highlightClass))
                         (Some (handleMouseEnter p (item p) (feedRef p)))
                         [if truthy_any (title it)
                          then Elem ''span'' (Some ''agentMessageTitle badge badge-dark'') None
                                 [Val (title it)]
                          else Val (title it),
                          Elem ''span'' None None [Val (message it)]]))))"

text \<open>
  What React DOM makes of a tree. A string that is not empty and a number become text,
  kept here as the value to print; \<^verbatim>\<open>undefined\<close>, \<^verbatim>\<open>null\<close>, booleans and Symbols
  show nothing; an array shows its elements; any other object is refused with the error
  that objects are not valid as a React child. \<open>dom_text\<close> is the list of the texts of
  a tree, in order.
\<close>

fun child_text :: "jsany \<Rightarrow> error + jsval list" where
  "child_text (Scalar (JStr s)) = Inr (if s = [] then [] else [JStr s])"
| "child_text (Scalar (JNum k)) = Inr [JNum k]"
| "child_text (Scalar JUndefined) = Inr []"
| "child_text (Scalar JNull) = Inr []"
| "child_text (Scalar (JBool b)) = Inr []"
| "child_text JSymbol = Inr []"
| "child_text (JObject c) = Inl InvalidChild"
| "child_text (JArray xs) = map_sum id concat (all_or_first (map child_text xs))"

fun dom_text :: "('s, jsany) node \<Rightarrow> error + jsval list" where
  "dom_text (Elem t c h ns) = map_sum id concat (all_or_first (map dom_text ns))"
| "dom_text (Val v) = child_text v"

text \<open>A whole rendering: the component builds its tree, then React DOM shows it.\<close>

definition render_dom :: "error + ('s, jsany) node \<Rightarrow> error + jsval list" where
  "render_dom r = (case r of Inl e \<Rightarrow> Inl e | Inr n \<Rightarrow> dom_text n)"

section \<open>Observing a rendered tree\<close>

text \<open>The class name of a rendering; a rendering that threw has none.\<close>

definition classNameOf :: "error + ('s, 'v) node \<Rightarrow> string option" where
  "classNameOf r = (case r of Inl e \<Rightarrow> None | Inr n \<Rightarrow> className n)"

text \<open>
  The DOM reads a class attribute as a list of tokens separated by ASCII whitespace
  (space, tab, line feed, form feed, carriage return); empty tokens do not count.
  \<open>split_ws cur s\<close> scans \<open>s\<close> with the token \<open>cur\<close> begun so far.
\<close>

definition is_ws :: "char \<Rightarrow> bool" where
  "is_ws c = (c = CHR '' '' \<or> c = CHR 0x09 \<or> c = CHR 0x0A \<or> c = CHR 0x0C \<or> c = CHR 0x0D)"

fun split_ws :: "string \<Rightarrow> string \<Rightarrow> string list" where
  "split_ws cur [] = (if cur = [] then [] else [cur])"
| "split_ws cur (c # cs) =
     (if is_ws c then (if cur = [] then [] else [cur]) @ split_ws [] cs
      else split_ws (cur @ [c]) cs)"

definition class_tokens :: "string \<Rightarrow> string list" where
  "class_tokens s = split_ws [] s"

text \<open>
  The title element of a block: the heading of \<^verbatim>\<open>Message\<close> or the badge of
  \<^verbatim>\<open>AgentMessage\<close>.
\<close>

fun is_title_element :: "('s, 'v) node \<Rightarrow> bool" where
  "is_title_element (Elem t c h ns) = (t = ''h4'' \<or> c = Some ''agentMessageTitle badge badge-dark'')"
| "is_title_element (Val v) = False"

text \<open>
  One pointer-enter event on a block runs the block's \<^verbatim>\<open>onMouseEnter\<close> handler,
  when it has one, on the parent's state.
\<close>

definition pointerEnter :: "('s, 'v) node \<Rightarrow> 's \<Rightarrow> 's" where
  "pointerEnter n s = (case onMouseEnter n of None \<Rightarrow> s | Some h \<Rightarrow> h s)"

text \<open>
  A callback that only records its calls: the state is the log of the argument pairs
  it was called with, oldest first.
\<close>

definition record_call :: "'i \<Rightarrow> 'r \<Rightarrow> ('i \<times> 'r) list \<Rightarrow> ('i \<times> 'r) list" where
  "record_call i r log = log @ [(i, r)]"

section \<open>Facts about decimal numerals and class tokens\<close>

lemma digit_char_not_ws: "d < 10 \<Longrightarrow> \<not> is_ws (digit_char d)"
proof -
  assume "d < 10"
  then have "d \<in> {0, 1, 2, 3, 4, 5, 6, 7, 8, 9}" by auto
  then show ?thesis
    by (auto simp: digit_char_def is_ws_def)
qed

lemma nat_to_string_not_ws: "\<forall>c \<in> set (nat_to_string n). \<not> is_ws c"
proof (induction n rule: nat_to_string.induct)
  case (1 n)
  show ?case
  proof (cases "n < 10")
    case True
    then show ?thesis
      by (subst nat_to_string.simps) (simp add: digit_char_not_ws)
  next
    case False
    with "1" show ?thesis
      by (subst nat_to_string.simps) (simp add: digit_char_not_ws)
  qed
qed

lemma int_to_string_not_ws: "\<forall>c \<in> set (int_to_string k). \<not> is_ws c"
  using nat_to_string_not_ws by (simp add: int_to_string_def is_ws_def)

lemma number_to_string_safe: "is_safe_integer k \<Longrightarrow> number_to_string k = int_to_string k"
  by (simp add: number_to_string_def)

lemma number_to_string_2: "number_to_string 2 = ''2''"
  by (simp add: number_to_string_def is_safe_integer_def int_to_string_def
      nat_to_string.simps digit_char_def)

lemma split_ws_sep:
  "is_ws c \<Longrightarrow> split_ws cur (a @ c # b) = split_ws cur a @ split_ws [] b"
  by (induction a arbitrary: cur) auto

lemma split_ws_word:
  "\<forall>c \<in> set s. \<not> is_ws c \<Longrightarrow> split_ws cur s = (if cur @ s = [] then [] else [cur @ s])"
  by (induction s arbitrary: cur) auto

lemma split_ws_nonempty: "cur \<noteq> [] \<Longrightarrow> split_ws cur s \<noteq> []"
  by (induction s arbitrary: cur) auto

lemma split_ws_prefix:
  "b \<noteq> [] \<Longrightarrow> split_ws (a @ b) s = (a @ hd (split_ws b s)) # tl (split_ws b s)"
  by (induction s arbitrary: b) auto

lemma class_tokens_sep:
  "class_tokens (a @ CHR '' '' # b) = class_tokens a @ class_tokens b"
  by (simp add: class_tokens_def split_ws_sep is_ws_def)

lemma class_tokens_Nil: "class_tokens [] = []"
  by (simp add: class_tokens_def)

lemma class_tokens_highlight: "class_tokens ''highlight'' = [''highlight'']"
  by (simp add: class_tokens_def is_ws_def)

lemma class_tokens_message:
  "class_tokens (''message '' @ f @ '' '' @ s @ '' '' @ h) =
     ''message'' # class_tokens f @ class_tokens s @ class_tokens h"
proof -
  have "class_tokens (''message '' @ f @ '' '' @ s @ '' '' @ h) =
        class_tokens (''message'' @ CHR '' '' # (f @ CHR '' '' # (s @ CHR '' '' # h)))"
    by simp
  also have "\<dots> = class_tokens ''message'' @ class_tokens f @ class_tokens s @ class_tokens h"
    by (simp only: class_tokens_sep)
  also have "class_tokens ''message'' = [''message'']"
    by (simp add: class_tokens_def is_ws_def)
  finally show ?thesis by simp
qed

lemma class_tokens_step: "class_tokens (''step'' @ s) = split_ws ''step'' s"
  by (simp add: class_tokens_def is_ws_def)

lemma class_tokens_step_nonempty: "class_tokens (''step'' @ s) \<noteq> []"
  unfolding class_tokens_step by (rule split_ws_nonempty) simp

lemma highlight_in_step_tokens:
  assumes "''highlight'' \<in> set (class_tokens (''step'' @ s))"
  shows "''highlight'' \<in> set (class_tokens s)"
proof -
  from assms have step: "''highlight'' \<in> set (split_ws ''step'' s)"
    unfolding class_tokens_step .
  show ?thesis
  proof (cases s)
    case Nil
    with step show ?thesis by simp
  next
    case (Cons c cs)
    show ?thesis
    proof (cases "is_ws c")
      case True
      with step Cons show ?thesis
        by (simp add: class_tokens_def)
    next
      case False
      have "split_ws (''step'' @ [c]) cs =
            (''step'' @ hd (split_ws [c] cs)) # tl (split_ws [c] cs)"
        by (rule split_ws_prefix) simp
      with step Cons False have "''highlight'' \<in> set (tl (split_ws [c] cs))"
        by simp
      then have "''highlight'' \<in> set (split_ws [c] cs)"
        by (cases "split_ws [c] cs") auto
      with Cons False show ?thesis
        by (simp add: class_tokens_def)
    qed
  qed
qed

section \<open>The tree each component builds for an item that is an object\<close>

lemma Message_item:
  "item p = Some it \<Longrightarrow>
   Message p = Inr (Elem ''div''
     (Some (''message '' @ ToString (format it) @ '' '' @
            (if step it \<noteq> JNull then ''step'' @ ToString (step it) else '''') @ '' '' @
            (if truthy (isHighlighted p) then ''highlight'' else '''')))
     (Some (handleMouseEnter p (Some it) (feedRef p)))
     [Elem ''h4'' None None [Val (title it)], Elem ''span'' None None [Val (message it)]])"
  by (simp add: Message_def Let_def)

lemma AgentMessage_item:
  "item p = Some it \<Longrightarrow>
   AgentMessage p = Inr (Elem ''div''
     (Some (''message '' @ ToString (format it) @ '' '' @
            (if step it \<noteq> JNull then ''step'' @ ToString (step it) else '''') @ '' '' @
            (if truthy (isHighlighted p) then ''highlight'' else '''')))
     (Some (handleMouseEnter p (Some it) (feedRef p)))
     [if truthy (title it)
      then Elem ''span'' (Some ''agentMessageTitle badge badge-dark'') None [Val (title it)]
      else Val (title it),
      Elem ''span'' None None [Val (message it)]])"
  by (simp add: AgentMessage_def Let_def)

lemma classNameOf_Message:
  "item p = Some it \<Longrightarrow>
   classNameOf (Message p) =
     Some (''message '' @ ToString (format it) @ '' '' @
           (if step it \<noteq> JNull then ''step'' @ ToString (step it) else '''') @ '' '' @
           (if truthy (isHighlighted p) then ''highlight'' else ''''))"
  by (simp add: Message_item classNameOf_def)

lemma classNameOf_AgentMessage:
  "item p = Some it \<Longrightarrow>
   classNameOf (AgentMessage p) =
     Some (''message '' @ ToString (format it) @ '' '' @
           (if step it \<noteq> JNull then ''step'' @ ToString (step it) else '''') @ '' '' @
           (if truthy (isHighlighted p) then ''highlight'' else ''''))"
  by (simp add: AgentMessage_item classNameOf_def)

section \<open>Title element\<close>

text \<open>
  Claim C1. For every item and highlight state, AgentMessage renders the title element
  exactly when \<^verbatim>\<open>item.title\<close> is truthy, and then it is the badge holding the title;
  Message renders its heading always, whatever the title is.
\<close>

theorem title_element_iff_truthy:
  assumes "item p = Some it"
  shows "\<exists>m a. Message p = Inr m \<and> AgentMessage p = Inr a \<and>
           ((\<exists>n \<in> set (children a). is_title_element n) \<longleftrightarrow> truthy (title it)) \<and>
           (\<exists>n \<in> set (children m). is_title_element n) \<and>
           filter is_title_element (children m) = [Elem ''h4'' None None [Val (title it)]] \<and>
           filter is_title_element (children a) =
             (if truthy (title it)
              then [Elem ''span'' (Some ''agentMessageTitle badge badge-dark'') None [Val (title it)]]
              else [])"
  by (simp add: Message_item [OF assms] AgentMessage_item [OF assms])

text \<open>
  Claim C1 at the agent example of the specification, whose title is the empty string:
  AgentMessage has no title element, Message has its heading.
\<close>

theorem title_element_iff_truthy_witness:
  "item \<lparr>item = Some \<lparr>format = JStr ''agent'', step = JNull, title = JStr '''',
                       message = JStr ''Thinking...''\<rparr>,
         handleMouseEnter = record_call, isHighlighted = JBool False, feedRef = ()\<rparr>
     = Some \<lparr>format = JStr ''agent'', step = JNull, title = JStr '''',
             message = JStr ''Thinking...''\<rparr> \<and>
   (\<exists>m a. Message \<lparr>item = Some \<lparr>format = JStr ''agent'', step = JNull, title = JStr '''',
                                 message = JStr ''Thinking...''\<rparr>,
                   handleMouseEnter = record_call, isHighlighted = JBool False, feedRef = ()\<rparr>
            = Inr m \<and>
          AgentMessage \<lparr>item = Some \<lparr>format = JStr ''agent'', step = JNull, title = JStr '''',
                                      message = JStr ''Thinking...''\<rparr>,
                        handleMouseEnter = record_call, isHighlighted = JBool False, feedRef = ()\<rparr>
            = Inr a \<and>
          filter is_title_element (children m) = [Elem ''h4'' None None [Val (JStr '''')]] \<and>
          filter is_title_element (children a) = [])"
proof -
  have h: "item \<lparr>item = Some \<lparr>format = JStr ''agent'', step = JNull, title = JStr '''',
                              message = JStr ''Thinking...''\<rparr>,
                handleMouseEnter = record_call, isHighlighted = JBool False, feedRef = ()\<rparr>
           = Some \<lparr>format = JStr ''agent'', step = JNull, title = JStr '''',
                   message = JStr ''Thinking...''\<rparr>"
    by simp
  from title_element_iff_truthy [OF h] show ?thesis
    by auto
qed

section \<open>Class name\<close>

text \<open>
  Claim C2, as stated: the class name of Message joins the base class, the format, the
  token \<open>step\<close> followed by the step when the step is present and the empty token
  otherwise, and the highlight token. It fails for an item that has no step property:
  the step then reads as \<^verbatim>\<open>undefined\<close>, which is not \<^verbatim>\<open>null\<close>, and the class name
  is \<open>message info stepundefined\<close> with a trailing space, not the \<open>message info\<close>
  with two trailing spaces that an empty step token gives.
\<close>

theorem absent_step_className_counterexample:
  "classNameOf (Message \<lparr>item = Some \<lparr>format = JStr ''info'', step = JUndefined,
                                        title = JStr ''t'', message = JStr ''m''\<rparr>,
                          handleMouseEnter = record_call, isHighlighted = JBool False,
                          feedRef = ()\<rparr>)
     = Some ''message info stepundefined '' \<and>
   join '' '' [''message'', ''info'', [], []] = ''message info  '' \<and>
   ''message info stepundefined '' \<noteq> ''message info  ''"
  by (simp add: Message_def classNameOf_def)

text \<open>
  Claim C2, amended. For every item and highlight state, the class name Message gives its
  block is the base class \<open>message\<close>, the format, the step token and the highlight
  token, in that order, joined by single spaces. The step token is \<open>step\<close> followed
  by the step when the step is not \<^verbatim>\<open>null\<close>, which includes a step that is absent as
  \<^verbatim>\<open>undefined\<close>, and empty when the step is \<^verbatim>\<open>null\<close>; the highlight token is
  \<open>highlight\<close> when \<^verbatim>\<open>isHighlighted\<close> holds and empty otherwise.
\<close>

theorem Message_className_joined:
  assumes "item p = Some it"
  shows "classNameOf (Message p) =
           Some (join '' ''
             [''message'',
              ToString (format it),
              (if step it \<noteq> JNull then ''step'' @ ToString (step it) else ''''),
              (if truthy (isHighlighted p) then ''highlight'' else '''')])"
  by (simp add: classNameOf_Message [OF assms])

text \<open>
  Claim C2, amended, at the specification's example, not highlighted: the joined string is
  \<open>message info step2\<close> with a trailing space for the empty highlight token.
\<close>

theorem Message_className_joined_witness:
  "classNameOf (Message \<lparr>item = Some \<lparr>format = JStr ''info'', step = JNum 2,
                                        title = JStr ''Step 2'', message = JStr ''Running tests''\<rparr>,
                          handleMouseEnter = record_call, isHighlighted = JBool False,
                          feedRef = ()\<rparr>)
     = Some (join '' '' [''message'', ''info'', ''step2'', '''']) \<and>
   join '' '' [''message'', ''info'', ''step2'', ''''] = ''message info step2 ''"
proof -
  have h: "item \<lparr>item = Some \<lparr>format = JStr ''info'', step = JNum 2,
                              title = JStr ''Step 2'', message = JStr ''Running tests''\<rparr>,
                handleMouseEnter = record_call, isHighlighted = JBool False, feedRef = ()\<rparr>
           = Some \<lparr>format = JStr ''info'', step = JNum 2,
                   title = JStr ''Step 2'', message = JStr ''Running tests''\<rparr>"
    by simp
  from Message_className_joined [OF h] show ?thesis
    by (simp add: number_to_string_2)
qed

text \<open>
  Claim C7. For every input, failing ones included, AgentMessage computes the same class
  name as Message.
\<close>

theorem AgentMessage_className_eq:
  "map_sum id className (AgentMessage p) = map_sum id className (Message p)"
  by (cases "item p") (simp_all add: Message_def AgentMessage_def Let_def)

text \<open>
  Claim C7 at the specification's example, highlighted: both class names are
  \<open>message info step2 highlight\<close>.
\<close>

theorem AgentMessage_className_eq_witness:
  "map_sum id className
     (AgentMessage \<lparr>item = Some \<lparr>format = JStr ''info'', step = JNum 2,
                                 title = JStr ''Step 2'', message = JStr ''Running tests''\<rparr>,
                   handleMouseEnter = record_call, isHighlighted = JBool True, feedRef = ()\<rparr>)
     = Inr (Some ''message info step2 highlight'') \<and>
   map_sum id className
     (Message \<lparr>item = Some \<lparr>format = JStr ''info'', step = JNum 2,
                            title = JStr ''Step 2'', message = JStr ''Running tests''\<rparr>,
              handleMouseEnter = record_call, isHighlighted = JBool True, feedRef = ()\<rparr>)
     = Inr (Some ''message info step2 highlight'')"
proof -
  have "map_sum id className
     (Message \<lparr>item = Some \<lparr>format = JStr ''info'', step = JNum 2,
                            title = JStr ''Step 2'', message = JStr ''Running tests''\<rparr>,
              handleMouseEnter = record_call, isHighlighted = JBool True, feedRef = ()\<rparr>)
     = Inr (Some ''message info step2 highlight'')"
    by (simp add: Message_def number_to_string_2)
  then show ?thesis
    by (simp only: AgentMessage_className_eq)
qed

section \<open>Step token\<close>

text \<open>
  Claim C3, as stated: for an item whose step is \<^verbatim>\<open>null\<close> the class name has no
  step-specific token. It fails for an item whose format is itself spelled like a step
  token: with format \<open>step1\<close> and step \<^verbatim>\<open>null\<close> both components give the class name
  \<open>message step1\<close> followed by two spaces, whose tokens include \<open>step1\<close>.
\<close>

theorem null_step_token_counterexample:
  "classNameOf (Message \<lparr>item = Some \<lparr>format = JStr ''step1'', step = JNull,
                                        title = JStr ''t'', message = JStr ''m''\<rparr>,
                          handleMouseEnter = record_call, isHighlighted = JBool False,
                          feedRef = ()\<rparr>)
     = Some ''message step1  '' \<and>
   classNameOf (AgentMessage \<lparr>item = Some \<lparr>format = JStr ''step1'', step = JNull,
                                             title = JStr ''t'', message = JStr ''m''\<rparr>,
                               handleMouseEnter = record_call, isHighlighted = JBool False,
                               feedRef = ()\<rparr>)
     = Some ''message step1  '' \<and>
   class_tokens ''message step1  '' = [''message'', ''step1''] \<and>
   prefix ''step'' ''step1''"
  by (simp add: Message_def AgentMessage_def classNameOf_def class_tokens_def is_ws_def)

text \<open>
  Claim C3, amended. For an item whose step is \<^verbatim>\<open>null\<close>, both components compute
  the same class name, and it has a token beginning with \<open>step\<close> exactly when the
  format itself spells one: the step contributes no token.
\<close>

theorem null_step_no_token:
  assumes "item p = Some it" and "step it = JNull"
  shows "\<exists>c. classNameOf (Message p) = Some c \<and> classNameOf (AgentMessage p) = Some c \<and>
           ((\<exists>t \<in> set (class_tokens c). prefix ''step'' t) \<longleftrightarrow>
            (\<exists>t \<in> set (class_tokens (ToString (format it))). prefix ''step'' t))"
proof -
  let ?c = "''message '' @ ToString (format it) @ '' '' @ '''' @ '' '' @
            (if truthy (isHighlighted p) then ''highlight'' else '''')"
  have m: "classNameOf (Message p) = Some ?c"
    using assms by (simp add: classNameOf_Message)
  have a: "classNameOf (AgentMessage p) = Some ?c"
    using assms by (simp add: classNameOf_AgentMessage)
  have "class_tokens ?c =
        ''message'' # class_tokens (ToString (format it)) @ class_tokens '''' @
        class_tokens (if truthy (isHighlighted p) then ''highlight'' else '''')"
    by (rule class_tokens_message)
  then have "(\<exists>t \<in> set (class_tokens ?c). prefix ''step'' t) \<longleftrightarrow>
             (\<exists>t \<in> set (class_tokens (ToString (format it))). prefix ''step'' t)"
    by (auto simp: class_tokens_Nil class_tokens_highlight)
  with m a show ?thesis by blast
qed

text \<open>
  Claim C3, amended, at the agent example of the specification (format \<open>agent\<close>, step
  \<^verbatim>\<open>null\<close>): no token of the class name begins with \<open>step\<close>.
\<close>

theorem null_step_no_token_witness:
  "step \<lparr>format = JStr ''agent'', step = JNull, title = JStr '''',
         message = JStr ''Thinking...''\<rparr> = JNull \<and>
   (\<exists>c. classNameOf (Message \<lparr>item = Some \<lparr>format = JStr ''agent'', step = JNull,
                                  title = JStr '''', message = JStr ''Thinking...''\<rparr>,
                          handleMouseEnter = record_call, isHighlighted = JBool False,
                          feedRef = ()\<rparr>) = Some c \<and>
        \<not> (\<exists>t \<in> set (class_tokens c). prefix ''step'' t))"
proof -
  have h: "item \<lparr>item = Some \<lparr>format = JStr ''agent'', step = JNull,
                              title = JStr '''', message = JStr ''Thinking...''\<rparr>,
                handleMouseEnter = record_call, isHighlighted = JBool False, feedRef = ()\<rparr>
           = Some \<lparr>format = JStr ''agent'', step = JNull,
                   title = JStr '''', message = JStr ''Thinking...''\<rparr>"
    by simp
  have s: "step \<lparr>format = JStr ''agent'', step = JNull, title = JStr '''',
                 message = JStr ''Thinking...''\<rparr> = JNull"
    by simp
  have f: "class_tokens ''agent'' = [''agent'']"
    by (simp add: class_tokens_def is_ws_def)
  from null_step_no_token [OF h s] f show ?thesis
    by auto
qed

text \<open>
  Claim C4. For an item whose step is the integer \<open>k\<close>, the class name computed by
  Message and by AgentMessage contains the token \<open>step\<close> followed by the decimal
  numeral of \<open>k\<close>. The integer is a safe one, so that the Number prints as that numeral.
\<close>

theorem integer_step_token:
  assumes "item p = Some it" and "step it = JNum k" and "is_safe_integer k"
  shows "\<exists>c. classNameOf (Message p) = Some c \<and> classNameOf (AgentMessage p) = Some c \<and>
           ''step'' @ int_to_string k \<in> set (class_tokens c)"
proof -
  let ?c = "''message '' @ ToString (format it) @ '' '' @ (''step'' @ int_to_string k) @ '' '' @
            (if truthy (isHighlighted p) then ''highlight'' else '''')"
  have m: "classNameOf (Message p) = Some ?c"
    using assms by (simp add: classNameOf_Message number_to_string_safe)
  have a: "classNameOf (AgentMessage p) = Some ?c"
    using assms by (simp add: classNameOf_AgentMessage number_to_string_safe)
  have "split_ws ''step'' (int_to_string k) = [''step'' @ int_to_string k]"
    using int_to_string_not_ws [of k] by (simp add: split_ws_word)
  then have "class_tokens (''step'' @ int_to_string k) = [''step'' @ int_to_string k]"
    unfolding class_tokens_step .
  moreover have "class_tokens ?c =
        ''message'' # class_tokens (ToString (format it)) @
        class_tokens (''step'' @ int_to_string k) @
        class_tokens (if truthy (isHighlighted p) then ''highlight'' else '''')"
    by (rule class_tokens_message)
  ultimately have "''step'' @ int_to_string k \<in> set (class_tokens ?c)"
    by simp
  with m a show ?thesis by blast
qed

text \<open>
  Claim C4 at the specification's example (format \<open>info\<close>, step 2, not highlighted):
  the class name contains the token \<open>step2\<close>.
\<close>

theorem integer_step_token_witness:
  "step \<lparr>format = JStr ''info'', step = JNum 2, title = JStr ''Step 2'',
         message = JStr ''Running tests''\<rparr> = JNum 2 \<and>
   is_safe_integer 2 \<and>
   (\<exists>c. classNameOf (Message \<lparr>item = Some \<lparr>format = JStr ''info'', step = JNum 2,
                                  title = JStr ''Step 2'', message = JStr ''Running tests''\<rparr>,
                          handleMouseEnter = record_call, isHighlighted = JBool False,
                          feedRef = ()\<rparr>) = Some c \<and>
        classNameOf (AgentMessage \<lparr>item = Some \<lparr>format = JStr ''info'', step = JNum 2,
                                  title = JStr ''Step 2'', message = JStr ''Running tests''\<rparr>,
                          handleMouseEnter = record_call, isHighlighted = JBool False,
                          feedRef = ()\<rparr>) = Some c \<and>
        ''step2'' \<in> set (class_tokens c))"
proof -
  have h: "item \<lparr>item = Some \<lparr>format = JStr ''info'', step = JNum 2,
                              title = JStr ''Step 2'', message = JStr ''Running tests''\<rparr>,
                handleMouseEnter = record_call, isHighlighted = JBool False, feedRef = ()\<rparr>
           = Some \<lparr>format = JStr ''info'', step = JNum 2,
                   title = JStr ''Step 2'', message = JStr ''Running tests''\<rparr>"
    by simp
  have s: "step \<lparr>format = JStr ''info'', step = JNum 2, title = JStr ''Step 2'',
                 message = JStr ''Running tests''\<rparr> = JNum 2"
    by simp
  have k: "is_safe_integer 2"
    by (simp add: is_safe_integer_def)
  have d: "''step'' @ int_to_string 2 = ''step2''"
    by (simp add: int_to_string_def nat_to_string.simps digit_char_def)
  from integer_step_token [OF h s k] s k show ?thesis
    unfolding d by blast
qed

text \<open>
  Claim C10. For an item whose step is \<^verbatim>\<open>undefined\<close>, both components put the token
  \<open>stepundefined\<close> in the class name; and the step adds no token to the class name
  (its tokens are \<open>message\<close>, those of the format, and the highlight token) exactly
  when the step is \<^verbatim>\<open>null\<close>.
\<close>

theorem undefined_step_token:
  assumes "item p = Some it"
  shows "\<exists>c. classNameOf (Message p) = Some c \<and> classNameOf (AgentMessage p) = Some c \<and>
           (step it = JUndefined \<longrightarrow> ''stepundefined'' \<in> set (class_tokens c)) \<and>
           (class_tokens c =
              ''message'' # class_tokens (ToString (format it)) @
              (if truthy (isHighlighted p) then [''highlight''] else [])
            \<longleftrightarrow> step it = JNull)"
proof -
  let ?s = "if step it \<noteq> JNull then ''step'' @ ToString (step it) else ''''"
  let ?h = "if truthy (isHighlighted p) then ''highlight'' else ''''"
  let ?c = "''message '' @ ToString (format it) @ '' '' @ ?s @ '' '' @ ?h"
  have m: "classNameOf (Message p) = Some ?c"
    using assms by (rule classNameOf_Message)
  have a: "classNameOf (AgentMessage p) = Some ?c"
    using assms by (rule classNameOf_AgentMessage)
  have toks: "class_tokens ?c =
        ''message'' # class_tokens (ToString (format it)) @ class_tokens ?s @ class_tokens ?h"
    by (rule class_tokens_message)
  have hl: "class_tokens ?h = (if truthy (isHighlighted p) then [''highlight''] else [])"
    by (simp add: class_tokens_Nil class_tokens_highlight)
  have undef: "''stepundefined'' \<in> set (class_tokens ?c)" if "step it = JUndefined"
  proof -
    have "class_tokens ''stepundefined'' = [''stepundefined'']"
      by (simp add: class_tokens_def is_ws_def)
    with that show ?thesis
      unfolding toks by simp
  qed
  have "class_tokens ?s = [] \<longleftrightarrow> step it = JNull"
    using class_tokens_step_nonempty [of "ToString (step it)"]
    by (simp add: class_tokens_Nil)
  then have "class_tokens ?c =
        ''message'' # class_tokens (ToString (format it)) @
        (if truthy (isHighlighted p) then [''highlight''] else [])
      \<longleftrightarrow> step it = JNull"
    unfolding toks hl by simp
  with m a undef show ?thesis by blast
qed

text \<open>
  Claim C10 at an item that has no step property: the class name is
  \<open>message info stepundefined\<close> with a trailing space.
\<close>

theorem undefined_step_token_witness:
  "\<exists>c. classNameOf (Message \<lparr>item = Some \<lparr>format = JStr ''info'', step = JUndefined,
                                  title = JStr ''t'', message = JStr ''m''\<rparr>,
                          handleMouseEnter = record_call, isHighlighted = JBool False,
                          feedRef = ()\<rparr>) = Some c \<and>
       classNameOf (AgentMessage \<lparr>item = Some \<lparr>format = JStr ''info'', step = JUndefined,
                                  title = JStr ''t'', message = JStr ''m''\<rparr>,
                          handleMouseEnter = record_call, isHighlighted = JBool False,
                          feedRef = ()\<rparr>) = Some c \<and>
       ''stepundefined'' \<in> set (class_tokens c) \<and>
       class_tokens c \<noteq> [''message'', ''info'']"
proof -
  have h: "item \<lparr>item = Some \<lparr>format = JStr ''info'', step = JUndefined,
                              title = JStr ''t'', message = JStr ''m''\<rparr>,
                handleMouseEnter = record_call, isHighlighted = JBool False, feedRef = ()\<rparr>
           = Some \<lparr>format = JStr ''info'', step = JUndefined,
                   title = JStr ''t'', message = JStr ''m''\<rparr>"
    by simp
  have f: "class_tokens ''info'' = [''info'']"
    by (simp add: class_tokens_def is_ws_def)
  from undefined_step_token [OF h] f show ?thesis
    by auto
qed

section \<open>Highlight token\<close>

text \<open>
  Claim C5, as stated: the class name contains the token \<open>highlight\<close> when
  \<^verbatim>\<open>isHighlighted\<close> is true and does not contain it when it is false. The second half
  fails for an item whose format is \<open>highlight\<close>: not highlighted, both components
  give the class name \<open>message highlight\<close> followed by two spaces.
\<close>

theorem highlight_token_counterexample:
  "classNameOf (Message \<lparr>item = Some \<lparr>format = JStr ''highlight'', step = JNull,
                                        title = JStr ''t'', message = JStr ''m''\<rparr>,
                          handleMouseEnter = record_call, isHighlighted = JBool False,
                          feedRef = ()\<rparr>)
     = Some ''message highlight  '' \<and>
   classNameOf (AgentMessage \<lparr>item = Some \<lparr>format = JStr ''highlight'', step = JNull,
                                             title = JStr ''t'', message = JStr ''m''\<rparr>,
                               handleMouseEnter = record_call, isHighlighted = JBool False,
                               feedRef = ()\<rparr>)
     = Some ''message highlight  '' \<and>
   ''highlight'' \<in> set (class_tokens ''message highlight  '')"
  by (simp add: Message_def AgentMessage_def classNameOf_def class_tokens_def is_ws_def)

text \<open>
  Claim C5, amended. Both components compute the same class name. It contains the token
  \<open>highlight\<close> when \<^verbatim>\<open>isHighlighted\<close> is true (truthy); when \<^verbatim>\<open>isHighlighted\<close>
  is false (falsy) it does not contain that token, provided neither the format nor the
  step, printed as strings, spells a token \<open>highlight\<close>.
\<close>

theorem highlight_token:
  assumes "item p = Some it"
  shows "\<exists>c. classNameOf (Message p) = Some c \<and> classNameOf (AgentMessage p) = Some c \<and>
           (truthy (isHighlighted p) \<longrightarrow> ''highlight'' \<in> set (class_tokens c)) \<and>
           (\<not> truthy (isHighlighted p) \<longrightarrow>
              ''highlight'' \<notin> set (class_tokens (ToString (format it))) \<longrightarrow>
              ''highlight'' \<notin> set (class_tokens (ToString (step it))) \<longrightarrow>
              ''highlight'' \<notin> set (class_tokens c))"
proof -
  let ?s = "if step it \<noteq> JNull then ''step'' @ ToString (step it) else ''''"
  let ?h = "if truthy (isHighlighted p) then ''highlight'' else ''''"
  let ?c = "''message '' @ ToString (format it) @ '' '' @ ?s @ '' '' @ ?h"
  have m: "classNameOf (Message p) = Some ?c"
    using assms by (rule classNameOf_Message)
  have a: "classNameOf (AgentMessage p) = Some ?c"
    using assms by (rule classNameOf_AgentMessage)
  have toks: "class_tokens ?c =
        ''message'' # class_tokens (ToString (format it)) @ class_tokens ?s @ class_tokens ?h"
    by (rule class_tokens_message)
  have on: "''highlight'' \<in> set (class_tokens ?c)" if "truthy (isHighlighted p)"
    using that unfolding toks by (simp add: class_tokens_highlight)
  have step_part: "''highlight'' \<notin> set (class_tokens ?s)"
    if "''highlight'' \<notin> set (class_tokens (ToString (step it)))"
    using that highlight_in_step_tokens [of "ToString (step it)"]
    by (auto simp: class_tokens_Nil)
  have off: "''highlight'' \<notin> set (class_tokens ?c)"
    if "\<not> truthy (isHighlighted p)"
      and "''highlight'' \<notin> set (class_tokens (ToString (format it)))"
      and "''highlight'' \<notin> set (class_tokens (ToString (step it)))"
    using that step_part unfolding toks by (simp add: class_tokens_Nil)
  from m a on off show ?thesis by blast
qed

text \<open>
  Claim C5, amended, at the specification's example (format \<open>info\<close>, step 2):
  highlighted, the class name contains \<open>highlight\<close>; not highlighted, it does not.
\<close>

theorem highlight_token_witness:
  "(\<exists>c. classNameOf (Message \<lparr>item = Some \<lparr>format = JStr ''info'', step = JNum 2,
                                  title = JStr ''Step 2'', message = JStr ''Running tests''\<rparr>,
                          handleMouseEnter = record_call, isHighlighted = JBool True,
                          feedRef = ()\<rparr>) = Some c \<and>
        ''highlight'' \<in> set (class_tokens c)) \<and>
   (\<exists>c. classNameOf (Message \<lparr>item = Some \<lparr>format = JStr ''info'', step = JNum 2,
                                  title = JStr ''Step 2'', message = JStr ''Running tests''\<rparr>,
                          handleMouseEnter = record_call, isHighlighted = JBool False,
                          feedRef = ()\<rparr>) = Some c \<and>
        ''highlight'' \<notin> set (class_tokens c))"
proof -
  have on: "item \<lparr>item = Some \<lparr>format = JStr ''info'', step = JNum 2,
                              title = JStr ''Step 2'', message = JStr ''Running tests''\<rparr>,
                handleMouseEnter = record_call, isHighlighted = JBool True, feedRef = ()\<rparr>
           = Some \<lparr>format = JStr ''info'', step = JNum 2,
                   title = JStr ''Step 2'', message = JStr ''Running tests''\<rparr>"
    by simp
  have off: "item \<lparr>item = Some \<lparr>format = JStr ''info'', step = JNum 2,
                              title = JStr ''Step 2'', message = JStr ''Running tests''\<rparr>,
                handleMouseEnter = record_call, isHighlighted = JBool False, feedRef = ()\<rparr>
           = Some \<lparr>format = JStr ''info'', step = JNum 2,
                   title = JStr ''Step 2'', message = JStr ''Running tests''\<rparr>"
    by simp
  have f: "class_tokens ''info'' = [''info'']"
    by (simp add: class_tokens_def is_ws_def)
  have s: "class_tokens (number_to_string 2) = [''2'']"
    by (simp add: class_tokens_def is_ws_def number_to_string_2)
  from highlight_token [OF on] highlight_token [OF off] f s show ?thesis
    by auto
qed

section \<open>Hover\<close>

text \<open>
  Claim C6. For every item and container reference, one pointer-enter event on the block
  either component renders has exactly the effect of one call of the callback on the
  item and the reference it was given; with a callback that records its calls, the log
  grows by that one pair.
\<close>

theorem pointer_enter_calls_once:
  assumes "item p = Some it" and "item q = Some jt" and "handleMouseEnter q = record_call"
  shows "(\<exists>m a. Message p = Inr m \<and> AgentMessage p = Inr a \<and>
            (\<forall>s. pointerEnter m s = handleMouseEnter p (item p) (feedRef p) s \<and>
                 pointerEnter a s = handleMouseEnter p (item p) (feedRef p) s)) \<and>
         (\<exists>m a. Message q = Inr m \<and> AgentMessage q = Inr a \<and>
            (\<forall>log. pointerEnter m log = log @ [(item q, feedRef q)] \<and>
                   pointerEnter a log = log @ [(item q, feedRef q)]))"
  using assms
  by (simp add: Message_item [OF assms(1)] AgentMessage_item [OF assms(1)]
      Message_item [OF assms(2)] AgentMessage_item [OF assms(2)]
      pointerEnter_def record_call_def)

text \<open>
  Claim C6 at the specification's example with the recording callback and the log
  empty: after one pointer-enter the log holds the one pair of the item and the
  reference.
\<close>

theorem pointer_enter_calls_once_witness:
  "\<exists>m a. Message \<lparr>item = Some \<lparr>format = JStr ''info'', step = JNum 2,
                               title = JStr ''Step 2'', message = JStr ''Running tests''\<rparr>,
                 handleMouseEnter = record_call, isHighlighted = JBool False,
                 feedRef = (7::nat)\<rparr> = Inr m \<and>
         AgentMessage \<lparr>item = Some \<lparr>format = JStr ''info'', step = JNum 2,
                               title = JStr ''Step 2'', message = JStr ''Running tests''\<rparr>,
                 handleMouseEnter = record_call, isHighlighted = JBool False,
                 feedRef = (7::nat)\<rparr> = Inr a \<and>
         pointerEnter m [] =
           [(Some \<lparr>format = JStr ''info'', step = JNum 2,
                   title = JStr ''Step 2'', message = JStr ''Running tests''\<rparr>, 7)] \<and>
         pointerEnter a [] =
           [(Some \<lparr>format = JStr ''info'', step = JNum 2,
                   title = JStr ''Step 2'', message = JStr ''Running tests''\<rparr>, 7)]"
proof -
  have h: "item \<lparr>item = Some \<lparr>format = JStr ''info'', step = JNum 2,
                              title = JStr ''Step 2'', message = JStr ''Running tests''\<rparr>,
                handleMouseEnter = record_call, isHighlighted = JBool False,
                feedRef = (7::nat)\<rparr>
           = Some \<lparr>format = JStr ''info'', step = JNum 2,
                   title = JStr ''Step 2'', message = JStr ''Running tests''\<rparr>"
    by simp
  have r: "handleMouseEnter \<lparr>item = Some \<lparr>format = JStr ''info'', step = JNum 2,
                              title = JStr ''Step 2'', message = JStr ''Running tests''\<rparr>,
                handleMouseEnter = record_call, isHighlighted = JBool False,
                feedRef = (7::nat)\<rparr> = record_call"
    by simp
  from pointer_enter_calls_once [OF h h r] show ?thesis
    by auto
qed

section \<open>Absent fields and failure\<close>

lemma child_text_scalar: "\<exists>ts. child_text (Scalar v) = Inr ts"
  by (cases v) simp_all

lemma Message_any_scalar:
  assumes "item p = Some it" and "format it = Scalar f" and "step it = Scalar s"
  shows "Message_any p = Inr (Elem ''div''
     (Some (''message '' @ ToString f @ '' '' @
            (if s \<noteq> JNull then ''step'' @ ToString s else '''') @ '' '' @
            (if truthy_any (isHighlighted p) then ''highlight'' else '''')))
     (Some (handleMouseEnter p (Some it) (feedRef p)))
     [Elem ''h4'' None None [Val (title it)], Elem ''span'' None None [Val (message it)]])"
  using assms by (simp add: Message_any_def Let_def)

lemma AgentMessage_any_scalar:
  assumes "item p = Some it" and "format it = Scalar f" and "step it = Scalar s"
  shows "AgentMessage_any p = Inr (Elem ''div''
     (Some (''message '' @ ToString f @ '' '' @
            (if s \<noteq> JNull then ''step'' @ ToString s else '''') @ '' '' @
            (if truthy_any (isHighlighted p) then ''highlight'' else '''')))
     (Some (handleMouseEnter p (Some it) (feedRef p)))
     [if truthy_any (title it)
      then Elem ''span'' (Some ''agentMessageTitle badge badge-dark'') None [Val (title it)]
      else Val (title it),
      Elem ''span'' None None [Val (message it)]])"
  using assms by (simp add: AgentMessage_any_def Let_def)

text \<open>
  On an item whose format and step are scalars, the bodies on any values compute the
  class name that the bodies on the data model compute.
\<close>

lemma className_any_scalar:
  assumes "item q = Some jt" and "format jt = Scalar (format it)" and "step jt = Scalar (step it)"
    and "isHighlighted q = Scalar (isHighlighted p)" and "item p = Some it"
  shows "classNameOf (Message_any q) = classNameOf (Message p)"
    and "classNameOf (AgentMessage_any q) = classNameOf (AgentMessage p)"
  using assms
  by (simp_all add: Message_any_scalar [OF assms(1-3)] AgentMessage_any_scalar [OF assms(1-3)]
      Message_item [OF assms(5)] AgentMessage_item [OF assms(5)] classNameOf_def)

text \<open>
  Claim C8, as stated: rendering never fails for any item, and an absent title, step or
  format degrades to empty or omitted output. Both halves fail. An item whose format is
  a Symbol makes both components throw a TypeError, and an item whose title is an
  object is refused by React DOM. And for an item that has no format and whose step is
  \<^verbatim>\<open>null\<close>, the class name is not \<open>message\<close> alone: it carries the token
  \<open>undefined\<close>.
\<close>

theorem absent_fields_counterexample:
  "Message_any \<lparr>item = Some \<lparr>format = JSymbol, step = Scalar JNull,
                               title = Scalar (JStr ''t''), message = Scalar (JStr ''m'')\<rparr>,
                 handleMouseEnter = record_call, isHighlighted = Scalar (JBool False),
                 feedRef = ()\<rparr> = Inl TypeError \<and>
   AgentMessage_any \<lparr>item = Some \<lparr>format = JSymbol, step = Scalar JNull,
                               title = Scalar (JStr ''t''), message = Scalar (JStr ''m'')\<rparr>,
                 handleMouseEnter = record_call, isHighlighted = Scalar (JBool False),
                 feedRef = ()\<rparr> = Inl TypeError \<and>
   render_dom (Message_any \<lparr>item = Some \<lparr>format = Scalar (JStr ''info''), step = Scalar JNull,
                               title = JObject (Some ''[object Object]''),
                               message = Scalar (JStr ''m'')\<rparr>,
                 handleMouseEnter = record_call, isHighlighted = Scalar (JBool False),
                 feedRef = ()\<rparr>) = Inl InvalidChild \<and>
   classNameOf (Message_any \<lparr>item = Some \<lparr>format = Scalar JUndefined, step = Scalar JNull,
                               title = Scalar (JStr ''t''), message = Scalar (JStr ''m'')\<rparr>,
                 handleMouseEnter = record_call, isHighlighted = Scalar (JBool False),
                 feedRef = ()\<rparr>) = Some ''message undefined  '' \<and>
   class_tokens ''message undefined  '' = [''message'', ''undefined'']"
  by (simp add: Message_any_def AgentMessage_any_def render_dom_def classNameOf_def
      class_tokens_def is_ws_def)

text \<open>
  Claim C8, amended. For every item that is an object whose format, step, title and
  message are each \<^verbatim>\<open>undefined\<close> (absent), \<^verbatim>\<open>null\<close>, a boolean, an integer or a
  string, rendering never fails: both components return their tree and React DOM shows
  it, as the texts of the title followed by those of the message. A title or message
  that is \<^verbatim>\<open>undefined\<close> or \<^verbatim>\<open>null\<close> shows nothing, AgentMessage has no title element
  for such a title, and a \<^verbatim>\<open>null\<close> step adds no token to the class name. A format that
  is \<^verbatim>\<open>undefined\<close> or \<^verbatim>\<open>null\<close> is not omitted from the class name: it gives the
  token \<open>undefined\<close> or \<open>null\<close>.
\<close>

theorem scalar_fields_render:
  assumes "item p = Some it"
    and "format it = Scalar f" and "step it = Scalar s"
    and "title it = Scalar t" and "message it = Scalar g"
  shows "\<exists>m a c tt tg.
           Message_any p = Inr m \<and> AgentMessage_any p = Inr a \<and>
           className m = Some c \<and> className a = Some c \<and>
           child_text (title it) = Inr tt \<and> child_text (message it) = Inr tg \<and>
           render_dom (Message_any p) = Inr (tt @ tg) \<and>
           render_dom (AgentMessage_any p) = Inr (tt @ tg) \<and>
           (t = JUndefined \<or> t = JNull \<longrightarrow> tt = [] \<and> filter is_title_element (children a) = []) \<and>
           (g = JUndefined \<or> g = JNull \<longrightarrow> tg = []) \<and>
           (s = JNull \<longrightarrow>
              class_tokens c = ''message'' # class_tokens (ToString f) @
                (if truthy_any (isHighlighted p) then [''highlight''] else [])) \<and>
           (f = JUndefined \<longrightarrow> ''undefined'' \<in> set (class_tokens c)) \<and>
           (f = JNull \<longrightarrow> ''null'' \<in> set (class_tokens c))"
proof -
  let ?s = "if s \<noteq> JNull then ''step'' @ ToString s else ''''"
  let ?h = "if truthy_any (isHighlighted p) then ''highlight'' else ''''"
  let ?c = "''message '' @ ToString f @ '' '' @ ?s @ '' '' @ ?h"
  let ?m = "Elem ''div'' (Some ?c) (Some (handleMouseEnter p (Some it) (feedRef p)))
             [Elem ''h4'' None None [Val (title it)], Elem ''span'' None None [Val (message it)]]"
  let ?a = "Elem ''div'' (Some ?c) (Some (handleMouseEnter p (Some it) (feedRef p)))
             [if truthy_any (title it)
              then Elem ''span'' (Some ''agentMessageTitle badge badge-dark'') None [Val (title it)]
              else Val (title it),
              Elem ''span'' None None [Val (message it)]]"
  have m: "Message_any p = Inr ?m"
    using assms(1-3) by (rule Message_any_scalar)
  have a: "AgentMessage_any p = Inr ?a"
    using assms(1-3) by (rule AgentMessage_any_scalar)
  have cm: "className ?m = Some ?c" and ca: "className ?a = Some ?c"
    by simp_all
  obtain tt where tt: "child_text (title it) = Inr tt"
    using child_text_scalar [of t] assms(4) by auto
  obtain tg where tg: "child_text (message it) = Inr tg"
    using child_text_scalar [of g] assms(5) by auto
  have dm: "render_dom (Message_any p) = Inr (tt @ tg)"
    unfolding m by (simp add: render_dom_def tt tg)
  have da: "render_dom (AgentMessage_any p) = Inr (tt @ tg)"
    unfolding a by (simp add: render_dom_def tt tg)
  have title_absent: "tt = [] \<and> filter is_title_element (children ?a) = []"
    if "t = JUndefined \<or> t = JNull"
    using that tt assms(4) by auto
  have message_absent: "tg = []" if "g = JUndefined \<or> g = JNull"
    using that tg assms(5) by auto
  have toks: "class_tokens ?c =
        ''message'' # class_tokens (ToString f) @ class_tokens ?s @ class_tokens ?h"
    by (rule class_tokens_message)
  have hl: "class_tokens ?h = (if truthy_any (isHighlighted p) then [''highlight''] else [])"
    by (simp add: class_tokens_Nil class_tokens_highlight)
  have null_step: "class_tokens ?c = ''message'' # class_tokens (ToString f) @
        (if truthy_any (isHighlighted p) then [''highlight''] else [])" if "s = JNull"
    using that unfolding toks hl by (simp add: class_tokens_Nil)
  have undef: "''undefined'' \<in> set (class_tokens ?c)" if "f = JUndefined"
  proof -
    have "class_tokens ''undefined'' = [''undefined'']"
      by (simp add: class_tokens_def is_ws_def)
    with that show ?thesis unfolding toks by simp
  qed
  have null: "''null'' \<in> set (class_tokens ?c)" if "f = JNull"
  proof -
    have "class_tokens ''null'' = [''null'']"
      by (simp add: class_tokens_def is_ws_def)
    with that show ?thesis unfolding toks by simp
  qed
  from m a cm ca tt tg dm da title_absent message_absent null_step undef null
  show ?thesis
    by blast
qed

text \<open>
  Claim C8, amended, at an item object that has none of the four properties, not
  highlighted: both components return a tree, React DOM shows no text, AgentMessage has
  no title element, and the class name carries \<open>undefined\<close>.
\<close>

theorem scalar_fields_render_witness:
  "\<exists>m a c. Message_any \<lparr>item = Some \<lparr>format = Scalar JUndefined, step = Scalar JUndefined,
                                 title = Scalar JUndefined, message = Scalar JUndefined\<rparr>,
                   handleMouseEnter = record_call, isHighlighted = Scalar (JBool False),
                   feedRef = ()\<rparr> = Inr m \<and>
           AgentMessage_any \<lparr>item = Some \<lparr>format = Scalar JUndefined, step = Scalar JUndefined,
                                 title = Scalar JUndefined, message = Scalar JUndefined\<rparr>,
                   handleMouseEnter = record_call, isHighlighted = Scalar (JBool False),
                   feedRef = ()\<rparr> = Inr a \<and>
           className m = Some c \<and> className a = Some c \<and>
           render_dom (Inr m) = Inr [] \<and> render_dom (Inr a) = Inr [] \<and>
           filter is_title_element (children a) = [] \<and>
           ''undefined'' \<in> set (class_tokens c)"
proof -
  have h: "item \<lparr>item = Some \<lparr>format = Scalar JUndefined, step = Scalar JUndefined,
                              title = Scalar JUndefined, message = Scalar JUndefined\<rparr>,
                handleMouseEnter = record_call, isHighlighted = Scalar (JBool False),
                feedRef = ()\<rparr>
           = Some \<lparr>format = Scalar JUndefined, step = Scalar JUndefined,
                   title = Scalar JUndefined, message = Scalar JUndefined\<rparr>"
    by simp
  from scalar_fields_render [OF h, of JUndefined JUndefined JUndefined JUndefined]
  show ?thesis
    by auto
qed

text \<open>
  The \<^verbatim>\<open>item\<close> prop itself being \<^verbatim>\<open>null\<close> or \<^verbatim>\<open>undefined\<close> makes every body throw.
\<close>

lemma nullish_item_throws:
  "item p = None \<Longrightarrow> Message p = Inl TypeError \<and> AgentMessage p = Inl TypeError"
  "item q = None \<Longrightarrow> Message_any q = Inl TypeError \<and> AgentMessage_any q = Inl TypeError"
  by (simp_all add: Message_def AgentMessage_def Message_any_def AgentMessage_any_def)

end
